theory Spec2Isabelle
  imports Complex_Main "HOL-Library.Sublist" "HOL-Library.AList"
begin

section \<open>JavaScript strings\<close>

text \<open>
  A JavaScript string is a sequence of UTF-16 code units. It is modelled as a
  \<^typ>\<open>string\<close>, one \<^typ>\<open>char\<close> per code unit, which covers the code units
  U+0000 to U+00FF. The operations below are the ones of the language standard,
  restricted to that range.
\<close>

abbreviation TAB :: char where "TAB \<equiv> CHR 0x09"
abbreviation NL :: char where "NL \<equiv> CHR 0x0A"

definition isWhiteSpace :: "char \<Rightarrow> bool" where
  \<comment> \<open>WhiteSpace and LineTerminator of the standard, below U+0100:
     TAB, LF, VT, FF, CR, SP, NBSP.\<close>
  "isWhiteSpace c \<longleftrightarrow>
     c = CHR 0x09 \<or> c = CHR 0x0A \<or> c = CHR 0x0B \<or> c = CHR 0x0C \<or> c = CHR 0x0D
     \<or> c = CHR 0x20 \<or> c = CHR 0xA0"

definition trim :: "string \<Rightarrow> string" where
  \<comment> \<open>\<^verbatim>\<open>String.prototype.trim\<close>\<close>
  "trim s = rev (dropWhile isWhiteSpace (rev (dropWhile isWhiteSpace s)))"

definition lowerChar :: "char \<Rightarrow> char" where
  \<comment> \<open>A-Z, and the capital letters U+00C0..U+00DE other than the
     multiplication sign U+00D7, are 32 below their lower-case forms.\<close>
  "lowerChar c =
     (let n = (of_char c :: nat)
      in if (65 \<le> n \<and> n \<le> 90) \<or> (192 \<le> n \<and> n \<le> 214) \<or> (216 \<le> n \<and> n \<le> 222)
         then char_of (n + 32) else c)"

definition toLowerCase :: "string \<Rightarrow> string" where
  \<comment> \<open>\<^verbatim>\<open>String.prototype.toLowerCase\<close>\<close>
  "toLowerCase s = map lowerChar s"

fun jsIncludes :: "string \<Rightarrow> string \<Rightarrow> bool" where
  \<comment> \<open>\<^verbatim>\<open>s.includes(e)\<close>: \<open>e\<close> occurs in \<open>s\<close> at some position\<close>
  "jsIncludes [] e = (e = [])"
| "jsIncludes (c # cs) e = (prefix e (c # cs) \<or> jsIncludes cs e)"

function splitFrom :: "string \<Rightarrow> string \<Rightarrow> string \<Rightarrow> string list" where
  \<comment> \<open>the scan of \<^verbatim>\<open>String.prototype.split\<close> for a non-empty separator:
     \<open>cur\<close> is the piece collected since the last separator\<close>
  "splitFrom sep cur [] = [cur]"
| "splitFrom sep cur (c # cs) =
     (if sep \<noteq> [] \<and> prefix sep (c # cs)
      then cur # splitFrom sep [] (drop (length sep) (c # cs))
      else splitFrom sep (cur @ [c]) cs)"
  by pat_completeness auto
termination
  by (relation "measure (\<lambda>(sep, cur, s). length s)") auto

definition jsSplit :: "string \<Rightarrow> string \<Rightarrow> string list" where
  \<comment> \<open>\<^verbatim>\<open>s.split(sep)\<close>; with the empty separator the result is the list of
     the code units of \<open>s\<close> (none for the empty string)\<close>
  "jsSplit s sep = (if sep = [] then map (\<lambda>c. [c]) s else splitFrom sep [] s)"

fun jsJoin :: "string \<Rightarrow> string list \<Rightarrow> string" where
  \<comment> \<open>\<^verbatim>\<open>xs.join(sep)\<close>\<close>
  "jsJoin sep [] = []"
| "jsJoin sep [x] = x"
| "jsJoin sep (x # y # ys) = x @ sep @ jsJoin sep (y # ys)"

fun getSubstitution :: "string \<Rightarrow> string \<Rightarrow> string \<Rightarrow> string \<Rightarrow> string" where
  \<comment> \<open>the replacement text for one match of a pattern without capture groups:
     \<^verbatim>\<open>$$\<close> is a dollar sign, \<^verbatim>\<open>$&\<close> the match, \<^verbatim>\<open>$`\<close> the text preceding it and
     \<^verbatim>\<open>$'\<close> the text following it; any other dollar sign stands for itself\<close>
  "getSubstitution matched preceding following (c # d # rest) =
     (if c = CHR ''$'' \<and> d = CHR ''$'' then CHR ''$'' # getSubstitution matched preceding following rest
      else if c = CHR ''$'' \<and> d = CHR ''&'' then matched @ getSubstitution matched preceding following rest
      else if c = CHR ''$'' \<and> d = CHR 0x60 then preceding @ getSubstitution matched preceding following rest
      else if c = CHR ''$'' \<and> d = CHR 0x27 then following @ getSubstitution matched preceding following rest
      else c # getSubstitution matched preceding following (d # rest))"
| "getSubstitution matched preceding following [c] = [c]"
| "getSubstitution matched preceding following [] = []"

function replaceFrom :: "string \<Rightarrow> string \<Rightarrow> string \<Rightarrow> string \<Rightarrow> string" where
  \<comment> \<open>left-to-right scan for the non-overlapping occurrences of \<open>pat\<close>;
     \<open>preceding\<close> is the part of the subject already passed\<close>
  "replaceFrom pat repl preceding [] = []"
| "replaceFrom pat repl preceding (c # cs) =
     (if pat \<noteq> [] \<and> prefix pat (c # cs)
      then getSubstitution pat preceding (drop (length pat) (c # cs)) repl
           @ replaceFrom pat repl (preceding @ pat) (drop (length pat) (c # cs))
      else c # replaceFrom pat repl (preceding @ [c]) cs)"
  by pat_completeness auto
termination
  by (relation "measure (\<lambda>(pat, repl, preceding, s). length s)") auto

definition jsReplaceAll :: "string \<Rightarrow> string \<Rightarrow> string \<Rightarrow> string" where
  \<comment> \<open>\<^verbatim>\<open>s.replace(new RegExp(escapeRegExp(pat), 'g'), repl)\<close>: the escaped pattern
     matches the text \<open>pat\<close> and nothing else. The caller passes a non-empty \<open>pat\<close>.\<close>
  "jsReplaceAll s pat repl = replaceFrom pat repl [] s"

section \<open>Data model\<close>

text \<open>
  A row is a JavaScript object with string values. It is kept as an association list
  in the order in which the properties were created; assigning to a property that
  exists replaces its value in place, which is \<^const>\<open>AList.update\<close>. (The
  accessor property \<^verbatim>\<open>__proto__\<close> and the numeric ordering of integer-like keys
  are not part of this model.)
\<close>

type_synonym row = "(string \<times> string) list"

datatype OcrEngine = Tesseract | Textract | Google | Ocrspace

datatype Status = Pending | AwaitingSelection | Processing | Completed | Error

record ExtractionTask =
  taskId :: string
  name :: string
  columnHeaders :: string
  columnSeparators :: string
  eliminators :: string
  findValues :: string
  replaceValues :: string
  structuredDataPreview :: "row list option"

record Rect =
  left :: rat
  top :: rat
  width :: rat
  height :: rat

record Dimensions =
  dimWidth :: rat
  dimHeight :: rat

record ProcessedFile =
  fileId :: string
  fileName :: string
  status :: Status
  progress :: nat
  ocrEngine :: "OcrEngine option"
  languages :: "string list option"
  error :: "string option"
  extractedData :: "(nat \<times> string) list option"
  pageImages :: "string option list option"
  analysis :: "string option"
  manuallyEditedPages :: "(nat \<times> string) list option"
  totalPages :: "nat option"
  pagePreviews :: "(nat \<times> string) list option"
  selectedPages :: "nat list"
  fileStructuredDataPreview :: "row list option"
  selectionRectangles :: "Rect list option"
  pageImageDimensions :: "Dimensions option list option"
  extractionTasks :: "ExtractionTask list"

section \<open>The structuring engine\<close>

definition fieldAt :: "string list \<Rightarrow> nat \<Rightarrow> string" where
  \<comment> \<open>\<^verbatim>\<open>values[index]?.trim() || ''\<close>\<close>
  "fieldAt values i = (if i < length values then trim (values ! i) else [])"

definition buildRow :: "string list \<Rightarrow> string list \<Rightarrow> row" where
  \<comment> \<open>\<^verbatim>\<open>headers.forEach((header, index) => { rowObject[header] = ... })\<close>\<close>
  "buildRow headers values =
     foldl (\<lambda>rowObject (index, header). AList.update header (fieldAt values index) rowObject)
       [] (enumerate 0 headers)"

definition parseHeaders :: "string \<Rightarrow> string list" where
  \<comment> \<open>\<^verbatim>\<open>headersString.split(',').map(h => h.trim()).filter(Boolean)\<close>\<close>
  "parseHeaders headersString = filter (\<lambda>h. h \<noteq> []) (map trim (jsSplit headersString '',''))"

definition nonBlankLines :: "string \<Rightarrow> string list" where
  \<comment> \<open>\<^verbatim>\<open>rawText.split('\n').filter(line => line.trim() !== '')\<close>\<close>
  "nonBlankLines rawText = filter (\<lambda>line. trim line \<noteq> []) (jsSplit rawText [NL])"

definition cleanOcrData :: "string \<Rightarrow> string \<Rightarrow> string \<Rightarrow> row list" where
  "cleanOcrData rawText headersString separator =
     (let headers = parseHeaders headersString
      in if length headers = 0 then []
         else filter (\<lambda>obj. list_ex (\<lambda>v. length v > 0) (map snd obj))
                (map (\<lambda>line. buildRow headers (jsSplit line separator)) (nonBlankLines rawText)))"

definition parseValues :: "string \<Rightarrow> string list" where
  \<comment> \<open>\<^verbatim>\<open>s ? s.split(',').map(v => v.trim()) : []\<close>\<close>
  "parseValues s = (if s = [] then [] else map trim (jsSplit s '',''))"

definition parseEliminators :: "string \<Rightarrow> string list" where
  \<comment> \<open>\<^verbatim>\<open>s ? s.split(',').map(e => e.trim().toLowerCase()).filter(Boolean) : []\<close>\<close>
  "parseEliminators s =
     (if s = [] then []
      else filter (\<lambda>e. e \<noteq> []) (map (\<lambda>e. toLowerCase (trim e)) (jsSplit s '','')))"

definition applyCorrections :: "string list \<Rightarrow> string list \<Rightarrow> string \<Rightarrow> string" where
  \<comment> \<open>the loop over \<open>i < findValues.length\<close>; it runs only where both lists have
     the same length, so the pairs are those of \<^const>\<open>zip\<close>\<close>
  "applyCorrections findVs replaceVs pageText =
     foldl (\<lambda>text (f, r). if f \<noteq> [] then jsReplaceAll text f r else text)
       pageText (zip findVs replaceVs)"

definition eliminateLines :: "string list \<Rightarrow> string \<Rightarrow> string" where
  \<comment> \<open>\<^verbatim>\<open>lines.filter(line => !eliminators.some(e => line.toLowerCase().includes(e))).join('\n')\<close>,
     done only for a non-empty eliminator list\<close>
  "eliminateLines elims pageText =
     (if length elims > 0
      then jsJoin [NL]
             (filter (\<lambda>line. \<not> list_ex (\<lambda>e. jsIncludes (toLowerCase line) e) elims)
                (jsSplit pageText [NL]))
      else pageText)"

definition pageTextOf :: "ProcessedFile \<Rightarrow> nat \<times> string \<Rightarrow> string" where
  \<comment> \<open>\<^verbatim>\<open>file.manuallyEditedPages?.get(pageData.page) ?? pageData.tsv\<close>\<close>
  "pageTextOf file pageData =
     (case manuallyEditedPages file of
        None \<Rightarrow> snd pageData
      | Some edited \<Rightarrow>
          (case map_of edited (fst pageData) of None \<Rightarrow> snd pageData | Some t \<Rightarrow> t))"

definition structurePage ::
  "ProcessedFile \<Rightarrow> ExtractionTask \<Rightarrow> string list \<Rightarrow> string list \<Rightarrow> string list
     \<Rightarrow> nat \<times> string \<Rightarrow> row list" where
  \<comment> \<open>the body of the loop over the pages in \<^verbatim>\<open>processTask\<close>\<close>
  "structurePage file task findVs replaceVs elims pageData =
     (let useCorrections = length findVs > 0 \<and> length findVs = length replaceVs;
          pageText = pageTextOf file pageData;
          pageText = (if useCorrections then applyCorrections findVs replaceVs pageText
                      else pageText);
          pageText = eliminateLines elims pageText
      in if trim pageText = [] then []
         else cleanOcrData pageText (columnHeaders task)
                (if columnSeparators task = [] then [TAB] else columnSeparators task))"

definition processTask :: "ProcessedFile \<Rightarrow> ExtractionTask \<Rightarrow> row list" where
  "processTask file task =
     (case extractedData file of
        None \<Rightarrow> []
      | Some pages \<Rightarrow>
          if trim (columnHeaders task) = [] then []
          else concat (map (structurePage file task (parseValues (findValues task))
                              (parseValues (replaceValues task))
                              (parseEliminators (eliminators task)))
                         (sort_key fst pages)))"



text \<open>
  What the specification says of a line that an eliminator removes: its lower-case form
  contains one of the keywords as a substring.
\<close>

definition containsKeyword :: "string list \<Rightarrow> string \<Rightarrow> bool" where
  "containsKeyword elims line \<longleftrightarrow>
     (\<exists>e \<in> set elims. \<exists>p q. toLowerCase line = p @ e @ q)"

section \<open>Sample inputs\<close>

definition demoFile :: ProcessedFile where
  "demoFile = \<lparr>fileId = ''f'', fileName = ''a.pdf'', status = Completed, progress = 100,
  ocrEngine = Some Tesseract, languages = Some [''eng''], error = None,
  extractedData = Some [(2, ''x'' @ [TAB] @ ''1O2''), (1, ''John'' @ [TAB] @ ''25'' @ [NL] @ ''PAGE NO. 3'' @ [NL] @ ''Jane'' @ [TAB] @ ''30'')],
  pageImages = None, analysis = None, manuallyEditedPages = None, totalPages = Some 2, pagePreviews = None,
  selectedPages = [1,2], fileStructuredDataPreview = None, selectionRectangles = None, pageImageDimensions = None,
  extractionTasks = []\<rparr>"

definition demoTask :: ExtractionTask where
  "demoTask = \<lparr>taskId = ''t'', name = ''Sheet 1'', columnHeaders = ''Name,Age'', columnSeparators = [],
  eliminators = ''page no.'', findValues = ''O,l'', replaceValues = ''0'', structuredDataPreview = None\<rparr>"


definition scenarioFile :: ProcessedFile where
  "scenarioFile = demoFile\<lparr>extractedData :=
      Some [(1, ''John'' @ [TAB] @ ''25'' @ [NL] @ ''PAGE NO. 3'' @ [NL] @ ''Jane'' @ [TAB] @ ''30'')]\<rparr>"

definition scenarioTask :: ExtractionTask where
  "scenarioTask = demoTask\<lparr>columnSeparators := [TAB], findValues := [], replaceValues := []\<rparr>"


section \<open>The table-structuring backend\<close>

record Relationship =
  relType :: string
  relIds :: "string list option"

record Block =
  BlockType :: "string option"
  Id :: "string option"
  Relationships :: "Relationship list option"
  Text :: "string option"
  RowIndex :: "nat option"
  ColumnIndex :: "nat option"

fun showNat :: "nat \<Rightarrow> string" where
  \<comment> \<open>the decimal numeral that a template literal prints for a non-negative integer\<close>
  "showNat n =
     (if n < 10 then [char_of (48 + n)] else showNat (n div 10) @ [char_of (48 + n mod 10)])"

definition tableCellIds :: "Block \<Rightarrow> string list" where
  \<comment> \<open>\<^verbatim>\<open>new Set(table?.Relationships?.find(r => r.Type === 'CHILD')?.Ids)\<close>\<close>
  "tableCellIds table =
     (case Relationships table of
        None \<Rightarrow> []
      | Some rels \<Rightarrow>
          (case find (\<lambda>r. relType r = ''CHILD'') rels of
             None \<Rightarrow> []
           | Some r \<Rightarrow> (case relIds r of None \<Rightarrow> [] | Some ids \<Rightarrow> ids)))"

definition tableCells :: "Block list \<Rightarrow> Block \<Rightarrow> Block list" where
  \<comment> \<open>\<^verbatim>\<open>blocks.filter(b => b.BlockType === 'CELL' && b.Id && tableCellIds.has(b.Id))\<close>\<close>
  "tableCells blocks table =
     filter (\<lambda>b. BlockType b = Some ''CELL''
                 \<and> (case Id b of None \<Rightarrow> False | Some i \<Rightarrow> i \<noteq> [] \<and> i \<in> set (tableCellIds table)))
       blocks"

definition wordsById :: "Block list \<Rightarrow> (string \<times> Block) list" where
  \<comment> \<open>the \<^verbatim>\<open>reduce\<close> over the WORD blocks: a later block with the same id replaces
     an earlier one\<close>
  "wordsById blocks =
     foldl (\<lambda>acc word. case Id word of
                           None \<Rightarrow> acc
                         | Some i \<Rightarrow> if i \<noteq> [] then AList.update i word acc else acc)
       [] (filter (\<lambda>b. BlockType b = Some ''WORD'') blocks)"

definition getCellText :: "(string \<times> Block) list \<Rightarrow> Block \<Rightarrow> string" where
  "getCellText words cell =
     trim (foldl (\<lambda>text rel.
                    case relIds rel of
                      None \<Rightarrow> text
                    | Some ids \<Rightarrow>
                        if relType rel = ''CHILD''
                        then foldl (\<lambda>text i.
                                      case map_of words i of
                                        None \<Rightarrow> text
                                      | Some word \<Rightarrow>
                                          (case Text word of
                                             None \<Rightarrow> text
                                           | Some t \<Rightarrow> if t \<noteq> [] then text @ t @ '' '' else text))
                               text ids
                        else text)
             [] (case Relationships cell of None \<Rightarrow> [] | Some rels \<Rightarrow> rels))"

record TableAcc =
  tableData :: "((nat \<times> nat) \<times> string) list"
  maxRow :: nat
  maxCol :: nat

definition placeCell :: "(string \<times> Block) list \<Rightarrow> TableAcc \<Rightarrow> Block \<Rightarrow> TableAcc" where
  \<comment> \<open>the body of \<^verbatim>\<open>for (const cell of cells)\<close>; an index that is missing or 0 is falsy\<close>
  "placeCell words acc cell =
     (case (RowIndex cell, ColumnIndex cell) of
        (Some r, Some c) \<Rightarrow>
          if r \<noteq> 0 \<and> c \<noteq> 0
          then \<lparr>tableData = AList.update (r, c) (getCellText words cell) (tableData acc),
                maxRow = max (maxRow acc) r, maxCol = max (maxCol acc) c\<rparr>
          else acc
      | _ \<Rightarrow> acc)"

definition cellOr :: "((nat \<times> nat) \<times> string) list \<Rightarrow> nat \<Rightarrow> nat \<Rightarrow> string" where
  \<comment> \<open>\<^verbatim>\<open>tableData[r]?.[c] || ''\<close>\<close>
  "cellOr td r c = (case map_of td (r, c) of None \<Rightarrow> [] | Some t \<Rightarrow> t)"

definition rowsAsArrays :: "Block list \<Rightarrow> Block \<Rightarrow> string list list" where
  "rowsAsArrays blocks table =
     (let acc = foldl (placeCell (wordsById blocks))
                  \<lparr>tableData = [], maxRow = 0, maxCol = 0\<rparr> (tableCells blocks table)
      in map (\<lambda>r. map (\<lambda>c. cellOr (tableData acc) r c) [1..<Suc (maxCol acc)])
           [1..<Suc (maxRow acc)])"

definition elemOr :: "string list \<Rightarrow> nat \<Rightarrow> string" where
  \<comment> \<open>\<^verbatim>\<open>row[index] || ''\<close>\<close>
  "elemOr row i = (if i < length row then row ! i else [])"

definition tableRowObject :: "string list \<Rightarrow> string list \<Rightarrow> row" where
  "tableRowObject headers row =
     foldl (\<lambda>rowObject (index, header). AList.update header (elemOr row index) rowObject)
       [] (enumerate 0 headers)"

definition structureRows :: "string list list \<Rightarrow> row list" where
  \<comment> \<open>from \<^verbatim>\<open>if (rowsAsArrays.length < 1)\<close> to the end of the flow. \<^verbatim>\<open>shift()\<close> removes
     the first row from \<^verbatim>\<open>rowsAsArrays\<close> itself, so the two tests after it see the
     shortened array, here \<open>rest\<close>.\<close>
  "structureRows rows =
     (if length rows < 1 then []
      else let headers = (if length rows > 1 then hd rows
                          else map (\<lambda>i. ''Column '' @ showNat (i + 1)) [0..<length (rows ! 0)]);
               rest = (if length rows > 1 then tl rows else rows);
               dataRows = (if length rest > 1 then rest else [[]])
           in if length rest = 1 then []
              else map (tableRowObject headers) dataRows)"

definition isTable :: "Block \<Rightarrow> bool" where
  \<comment> \<open>\<^verbatim>\<open>b => b.BlockType === 'TABLE'\<close>\<close>
  "isTable b \<longleftrightarrow> BlockType b = Some ''TABLE''"

definition textractTableFlow :: "Block list option \<Rightarrow> row list" where
  \<comment> \<open>the flow from the response of the service on; \<open>None\<close> is a response without
     \<^verbatim>\<open>Blocks\<close>\<close>
  "textractTableFlow response =
     (case response of
        None \<Rightarrow> []
      | Some blocks \<Rightarrow>
          (let tableBlocks = filter isTable blocks
           in if length tableBlocks = 0 then []
              else structureRows (rowsAsArrays blocks (tableBlocks ! 0))))"

definition wordBlock :: "string \<Rightarrow> string \<Rightarrow> Block" where
  "wordBlock i t = \<lparr>BlockType = Some ''WORD'', Id = Some i, Relationships = None,
     Text = Some t, RowIndex = None, ColumnIndex = None\<rparr>"

definition cellBlock :: "string \<Rightarrow> nat \<Rightarrow> nat \<Rightarrow> string list \<Rightarrow> Block" where
  "cellBlock i r c ws = \<lparr>BlockType = Some ''CELL'', Id = Some i,
     Relationships = Some [\<lparr>relType = ''CHILD'', relIds = Some ws\<rparr>],
     Text = None, RowIndex = Some r, ColumnIndex = Some c\<rparr>"

definition tableBlock :: "string list \<Rightarrow> Block" where
  "tableBlock cs = \<lparr>BlockType = Some ''TABLE'', Id = Some ''t'',
     Relationships = Some [\<lparr>relType = ''CHILD'', relIds = Some cs\<rparr>],
     Text = None, RowIndex = None, ColumnIndex = None\<rparr>"


definition twoRowTable :: "Block list" where
  "twoRowTable = [tableBlock [''c1'', ''c2'', ''c3'', ''c4''],
     cellBlock ''c1'' 1 1 [''w1''], cellBlock ''c2'' 1 2 [''w2''],
     cellBlock ''c3'' 2 1 [''w3''], cellBlock ''c4'' 2 2 [''w4''],
     wordBlock ''w1'' ''Name'', wordBlock ''w2'' ''Age'',
     wordBlock ''w3'' ''Alice'', wordBlock ''w4'' ''30'']"


section \<open>Export\<close>

text \<open>
  The workbook is the list of its sheets in the order in which they were appended. A
  sheet made by \<^verbatim>\<open>json_to_sheet\<close> keeps its rows (and the header order asked for, if
  any); a sheet made by \<^verbatim>\<open>aoa_to_sheet\<close> keeps its array of arrays. The library is
  taken to accept every sheet name.
\<close>

datatype Sheet =
  JsonSheet string "string list option" "row list"
  | AoaSheet string "string list list"






definition blankTask :: ExtractionTask where
  \<comment> \<open>the task that \<^verbatim>\<open>handleAddTask\<close> creates\<close>
  "blankTask = \<lparr>taskId = ''task-1'', name = ''Sheet 1'', columnHeaders = [],
     columnSeparators = [TAB], eliminators = [], findValues = [], replaceValues = [],
     structuredDataPreview = None\<rparr>"

section \<open>Region selection\<close>

text \<open>
  A JavaScript number is modelled as a rational, and arithmetic on it as exact: the
  rounding of IEEE floating point and the values NaN and Infinity (which a division by
  a display extent of 0 gives) are not modelled.
\<close>

definition jsRound :: "rat \<Rightarrow> rat" where
  \<comment> \<open>\<^verbatim>\<open>Math.round\<close>: the nearest integer, a tie going up\<close>
  "jsRound x = of_int \<lfloor>x + 1 / 2\<rfloor>"






definition scaledRect :: "Rect \<Rightarrow> rat \<Rightarrow> rat \<Rightarrow> rat \<Rightarrow> rat \<Rightarrow> Rect" where
  \<comment> \<open>from display space to the space of the full-resolution image\<close>
  "scaledRect r displayWidth displayHeight originalWidth originalHeight =
     \<lparr>left = jsRound ((left r / displayWidth) * originalWidth),
      top = jsRound ((top r / displayHeight) * originalHeight),
      width = jsRound ((width r / displayWidth) * originalWidth),
      height = jsRound ((height r / displayHeight) * originalHeight)\<rparr>"

definition displayRect :: "Rect \<Rightarrow> rat \<Rightarrow> rat \<Rightarrow> rat \<Rightarrow> rat \<Rightarrow> Rect" where
  \<comment> \<open>from the space of the full-resolution image back to display space, as the
     overlay of the stored rectangles computes it: no rounding\<close>
  "displayRect r originalWidth originalHeight displayWidth displayHeight =
     \<lparr>left = (left r / originalWidth) * displayWidth,
      top = (top r / originalHeight) * displayHeight,
      width = (width r / originalWidth) * displayWidth,
      height = (height r / originalHeight) * displayHeight\<rparr>"







definition smallRect :: Rect where
  "smallRect = \<lparr>left = 6, top = 6, width = 6, height = 6\<rparr>"

section \<open>Languages and the character whitelist\<close>

text \<open>
  The whitelist holds Devanagari letters, so it is kept as the list of its UTF-16 code
  units. A JavaScript \<^verbatim>\<open>Set\<close> of strings is the list of its elements in the order in
  which they were first added.
\<close>

type_synonym codeunits = "nat list"

definition ENG_CHARS :: codeunits where
  "ENG_CHARS = map of_char ''abcdefghijklmnopqrstuvwxyzABCDEFGHIJKLMNOPQRSTUVWXYZ0123456789''"

definition HINDI_CHARS :: codeunits where
  "HINDI_CHARS =
     [0x901, 0x902, 0x903, 0x905, 0x906, 0x907, 0x908, 0x909, 0x90A, 0x90B, 0x90F, 0x910,
      0x913, 0x914, 0x915, 0x916, 0x917, 0x918, 0x919, 0x91A, 0x91B, 0x91C, 0x91D, 0x91E,
      0x91F, 0x920, 0x921, 0x922, 0x923, 0x924, 0x925, 0x926, 0x927, 0x928, 0x92A, 0x92B,
      0x92C, 0x92D, 0x92E, 0x92F, 0x930, 0x932, 0x935, 0x936, 0x937, 0x938, 0x939, 0x93C,
      0x93E, 0x93F, 0x940, 0x941, 0x942, 0x943, 0x947, 0x948, 0x94B, 0x94C, 0x94D, 0x966,
      0x967, 0x968, 0x969, 0x96A, 0x96B, 0x96C, 0x96D, 0x96E, 0x96F]"

definition SYMBOLS :: codeunits where
  "SYMBOLS = map of_char ''.,-/:()# ''"

definition setAdd :: "string list \<Rightarrow> string \<Rightarrow> string list" where
  \<comment> \<open>\<^verbatim>\<open>Set.prototype.add\<close>\<close>
  "setAdd s x = (if x \<in> set s then s else s @ [x])"

definition setDelete :: "string list \<Rightarrow> string \<Rightarrow> string list" where
  \<comment> \<open>\<^verbatim>\<open>Set.prototype.delete\<close>\<close>
  "setDelete s x = filter (\<lambda>y. y \<noteq> x) s"

definition newSet :: "string list \<Rightarrow> string list" where
  \<comment> \<open>\<^verbatim>\<open>new Set(array)\<close>\<close>
  "newSet xs = foldl setAdd [] xs"

record Settings =
  languagesState :: "string list"
  charWhitelist :: codeunits

definition initialSettings :: Settings where
  \<comment> \<open>\<^verbatim>\<open>useState(['eng'])\<close> and \<^verbatim>\<open>useState(ENG_CHARS + SYMBOLS)\<close>\<close>
  "initialSettings = \<lparr>languagesState = [''eng''], charWhitelist = ENG_CHARS @ SYMBOLS\<rparr>"

definition newLangs :: "string \<Rightarrow> bool \<Rightarrow> string list \<Rightarrow> string list" where
  \<comment> \<open>the array \<^verbatim>\<open>newLangs\<close> of \<^verbatim>\<open>handleLanguageChange\<close>\<close>
  "newLangs lang checked prev =
     (let currentLangs = newSet prev
      in if lang = ''hinglish''
         then (if checked then setAdd (setAdd currentLangs ''eng'') ''hin''
               else setDelete (setDelete currentLangs ''eng'') ''hin'')
         else (if checked then setAdd currentLangs lang else setDelete currentLangs lang))"

definition deriveWhitelist :: "string list \<Rightarrow> codeunits" where
  "deriveWhitelist langs =
     (let newWhitelist = [];
          newWhitelist = (if ''eng'' \<in> set langs then newWhitelist @ ENG_CHARS else newWhitelist);
          newWhitelist = (if ''hin'' \<in> set langs then newWhitelist @ HINDI_CHARS else newWhitelist)
      in newWhitelist @ SYMBOLS)"

definition handleLanguageChange :: "string \<Rightarrow> bool \<Rightarrow> Settings \<Rightarrow> Settings" where
  "handleLanguageChange lang checked st =
     (let langs = newLangs lang checked (languagesState st)
      in if length langs = 0 then st
         else st\<lparr>languagesState := langs, charWhitelist := deriveWhitelist langs\<rparr>)"

datatype SettingsEvent =
  LanguageChange string bool
  | WhitelistEdit codeunits

fun applyEvent :: "Settings \<Rightarrow> SettingsEvent \<Rightarrow> Settings" where
  \<comment> \<open>the two ways in which the page changes these settings: a language checkbox, and
     the input field of the whitelist (\<^verbatim>\<open>setCharWhitelist(e.target.value)\<close>)\<close>
  "applyEvent st (LanguageChange lang checked) = handleLanguageChange lang checked st"
| "applyEvent st (WhitelistEdit w) = st\<lparr>charWhitelist := w\<rparr>"

section \<open>The processing run\<close>

text \<open>
  \<^verbatim>\<open>processFile\<close> awaits the PDF library, the canvas, the recognition services and
  the Tesseract worker. What each of them does in one run is given by a \<open>RunEnv\<close>:
  every call either throws a value or yields its result. The run itself is a function
  of that environment, of the snapshot \<^verbatim>\<open>processedFile\<close> it was started with and of the
  file list \<^verbatim>\<open>files\<close> of the page. It returns the file list after the run, the value
  caught (if the run failed) and the trace of what happened to the worker and to the
  status of the document. Toasts are left out.
\<close>

datatype Thrown =
  ErrorObject string
  | OtherValue

definition errorMessageOf :: "Thrown \<Rightarrow> string" where
  \<comment> \<open>\<^verbatim>\<open>error instanceof Error ? error.message : "An unknown error occurred."\<close>\<close>
  "errorMessageOf t = (case t of ErrorObject m \<Rightarrow> m | OtherValue \<Rightarrow> ''An unknown error occurred.'')"

datatype Event =
  DocumentProcessing
  | WorkerCreated string
  | WorkerTerminated
  | DocumentCompleted
  | DocumentError

record PageEnv =
  rendering :: "Thrown + (string \<times> Dimensions) option"
  tableResult :: "Thrown + row list"
  googleText :: "Thrown + string"
  ocrSpaceText :: "Thrown + string"
  tesseractLines :: "Thrown + string list"

record RunEnv =
  documentLoad :: "Thrown option"
  workerCreate :: "Thrown option"
  workerSetParameters :: "Thrown option"
  pageEnv :: "nat \<Rightarrow> PageEnv"
  workerTerminate :: "Thrown option"
  now :: string

record RunAcc =
  processedCount :: nat
  allStructuredData :: "row list"
  newExtractedData :: "(nat \<times> string) list"
  newPageImages :: "string option list"
  newPageImageDimensions :: "Dimensions option list"
  runFiles :: "ProcessedFile list"

record RunResult =
  resultFiles :: "ProcessedFile list"
  thrown :: "Thrown option"
  trace :: "Event list"

definition assignIndex :: "'a option list \<Rightarrow> nat \<Rightarrow> 'a \<Rightarrow> 'a option list" where
  \<comment> \<open>\<^verbatim>\<open>xs[pageNumber - 1] = v\<close>: an index past the end extends the array, leaving holes;
     for page number 0 the index is -1, which is no element of the array\<close>
  "assignIndex xs pageNumber v =
     (if pageNumber = 0 then xs
      else if pageNumber - 1 < length xs then xs[pageNumber - 1 := Some v]
      else xs @ replicate (pageNumber - 1 - length xs) None @ [Some v])"

definition clearPreview :: "ExtractionTask \<Rightarrow> ExtractionTask" where
  \<comment> \<open>\<^verbatim>\<open>({ ...task, structuredDataPreview: undefined })\<close>\<close>
  "clearPreview task = task\<lparr>structuredDataPreview := None\<rparr>"

definition updateFile ::
  "string \<Rightarrow> (ProcessedFile \<Rightarrow> ProcessedFile) \<Rightarrow> ProcessedFile list \<Rightarrow> ProcessedFile list" where
  \<comment> \<open>\<^verbatim>\<open>prev.map(f => f.id === id ? u(f) : f)\<close>\<close>
  "updateFile pid u prev = map (\<lambda>f. if fileId f = pid then u f else f) prev"

definition storePage :: "RunAcc \<Rightarrow> nat \<Rightarrow> string \<Rightarrow> string \<Rightarrow> Dimensions \<Rightarrow> RunAcc" where
  \<comment> \<open>what the three text engines do with the text of a page\<close>
  "storePage acc pageNumber pageText imageDataUri dims =
     acc\<lparr>newExtractedData := newExtractedData acc @ [(pageNumber, pageText)],
         newPageImages := assignIndex (newPageImages acc) pageNumber imageDataUri,
         newPageImageDimensions := assignIndex (newPageImageDimensions acc) pageNumber dims\<rparr>"

definition pageDone :: "string \<Rightarrow> nat \<Rightarrow> RunAcc \<Rightarrow> RunAcc" where
  \<comment> \<open>\<^verbatim>\<open>processedCount++\<close> and the progress update at the end of a page\<close>
  "pageDone pid numPages acc =
     (let count = processedCount acc + 1;
          newProgress = min 100 (nat \<lfloor>jsRound (5 + (of_nat count / of_nat numPages) * 95)\<rfloor>)
      in acc\<lparr>processedCount := count,
              runFiles := updateFile pid (\<lambda>f. f\<lparr>progress := newProgress\<rparr>) (runFiles acc)\<rparr>)"

definition processPage ::
  "RunEnv \<Rightarrow> OcrEngine \<Rightarrow> string \<Rightarrow> nat \<Rightarrow> RunAcc \<Rightarrow> nat \<Rightarrow> Thrown + RunAcc" where
  \<comment> \<open>the body of \<^verbatim>\<open>for (const pageNumber of pagesToProcess)\<close>\<close>
  "processPage env engine pid numPages acc pageNumber =
     (let pe = pageEnv env pageNumber
      in case rendering pe of
           Inl t \<Rightarrow> Inl t
         | Inr None \<Rightarrow> Inr acc
         | Inr (Some (imageDataUri, dims)) \<Rightarrow>
             (case engine of
                Textract \<Rightarrow>
                  (case tableResult pe of
                     Inl t \<Rightarrow> Inl t
                   | Inr pageStructuredData \<Rightarrow>
                       Inr (pageDone pid numPages
                              (acc\<lparr>allStructuredData := allStructuredData acc @ pageStructuredData\<rparr>)))
              | Google \<Rightarrow>
                  (case googleText pe of
                     Inl t \<Rightarrow> Inl t
                   | Inr text \<Rightarrow>
                       Inr (pageDone pid numPages
                              (storePage acc pageNumber (trim text) imageDataUri dims)))
              | Ocrspace \<Rightarrow>
                  (case ocrSpaceText pe of
                     Inl t \<Rightarrow> Inl t
                   | Inr text \<Rightarrow>
                       Inr (pageDone pid numPages
                              (storePage acc pageNumber (trim text) imageDataUri dims)))
              | Tesseract \<Rightarrow>
                  (case tesseractLines pe of
                     Inl t \<Rightarrow> Inl t
                   | Inr ls \<Rightarrow>
                       Inr (pageDone pid numPages
                              (storePage acc pageNumber (jsJoin [NL] ls) imageDataUri dims)))))"

fun runPages ::
  "RunEnv \<Rightarrow> OcrEngine \<Rightarrow> string \<Rightarrow> nat \<Rightarrow> RunAcc \<Rightarrow> nat list \<Rightarrow> Thrown option \<times> RunAcc" where
  \<comment> \<open>the loop over the pages; a throw ends it\<close>
  "runPages env engine pid numPages acc [] = (None, acc)"
| "runPages env engine pid numPages acc (pageNumber # rest) =
     (case processPage env engine pid numPages acc pageNumber of
        Inl t \<Rightarrow> (Some t, acc)
      | Inr acc' \<Rightarrow> runPages env engine pid numPages acc' rest)"

definition startRun ::
  "ProcessedFile \<Rightarrow> string list \<Rightarrow> OcrEngine \<Rightarrow> ProcessedFile \<Rightarrow> ProcessedFile" where
  \<comment> \<open>the first \<^verbatim>\<open>setFiles\<close>: the entry of the document goes to \<^verbatim>\<open>processing\<close>\<close>
  "startRun processedFile selectedLangs engine f =
     (let isReOcr = (case pageImages processedFile of Some (x # xs) \<Rightarrow> True | _ \<Rightarrow> False)
      in f\<lparr>status := Processing, progress := 5, ocrEngine := Some engine,
            languages := Some selectedLangs, extractedData := Some [],
            analysis := (if isReOcr then analysis f else Some ''Processing...''),
            manuallyEditedPages := (if isReOcr then manuallyEditedPages f else Some []),
            extractionTasks := map clearPreview (extractionTasks f)\<rparr>)"

definition completeRun :: "RunEnv \<Rightarrow> OcrEngine \<Rightarrow> RunAcc \<Rightarrow> ProcessedFile \<Rightarrow> ProcessedFile" where
  \<comment> \<open>the last \<^verbatim>\<open>setFiles\<close> of a run that did not throw\<close>
  "completeRun env engine acc f =
     (if engine = Textract
      then f\<lparr>status := Completed, progress := 100,
              fileStructuredDataPreview := Some (allStructuredData acc),
              analysis := Some (''Extracted '' @ showNat (length (allStructuredData acc))
                                @ '' rows using Amazon Textract'' @ [CHR 0x27]
                                @ ''s table analysis.'')\<rparr>
      else f\<lparr>status := Completed, progress := 100,
              extractedData := Some (sort_key fst (newExtractedData acc)),
              pageImages := Some (newPageImages acc),
              pageImageDimensions := Some (newPageImageDimensions acc),
              extractionTasks :=
                (if length (extractionTasks f) > 0 then map clearPreview (extractionTasks f)
                 else [\<lparr>taskId = ''task-'' @ now env, name = ''Sheet 1'', columnHeaders = [],
                        columnSeparators = [TAB], eliminators = [], findValues = [],
                        replaceValues = [], structuredDataPreview = None\<rparr>]),
              analysis := Some ''Processing complete. Review extracted text and define extraction rules.''\<rparr>)"

definition failRun :: "ProcessedFile \<Rightarrow> Thrown \<Rightarrow> ProcessedFile" where
  \<comment> \<open>\<^verbatim>\<open>{ ...processedFile, status: 'error', progress: 0, error: errorMessage }\<close>\<close>
  "failRun processedFile t =
     processedFile\<lparr>status := Error, progress := 0, error := Some (errorMessageOf t)\<rparr>"

definition catchRun ::
  "ProcessedFile \<Rightarrow> ProcessedFile list \<Rightarrow> Event list \<Rightarrow> Thrown \<Rightarrow> RunResult" where
  \<comment> \<open>the \<^verbatim>\<open>catch\<close> block, on the file list and the trace at the moment of the throw\<close>
  "catchRun processedFile prev tr t =
     \<lparr>resultFiles = updateFile (fileId processedFile) (\<lambda>f. failRun processedFile t) prev,
      thrown = Some t, trace = tr @ [DocumentError]\<rparr>"

definition processFile ::
  "RunEnv \<Rightarrow> ProcessedFile \<Rightarrow> string list \<Rightarrow> OcrEngine \<Rightarrow> ProcessedFile list \<Rightarrow> RunResult" where
  "processFile env processedFile selectedLangs engine files =
     (let pid = fileId processedFile;
          files1 = updateFile pid (startRun processedFile selectedLangs engine) files;
          tr1 = [DocumentProcessing]
      in case documentLoad env of
           Some t \<Rightarrow> catchRun processedFile files1 tr1 t
         | None \<Rightarrow>
             (let pagesToProcess = sort (selectedPages processedFile);
                  numPages = length pagesToProcess
              in case (if engine = Tesseract then workerCreate env else None) of
                   Some t \<Rightarrow> catchRun processedFile files1 tr1 t
                 | None \<Rightarrow>
                     (let tr2 = (if engine = Tesseract
                                 then tr1 @ [WorkerCreated (jsJoin ''+'' selectedLangs)] else tr1)
                      in case (if engine = Tesseract then workerSetParameters env else None) of
                           Some t \<Rightarrow> catchRun processedFile files1 tr2 t
                         | None \<Rightarrow>
                             (case runPages env engine pid numPages
                                     \<lparr>processedCount = 0, allStructuredData = [],
                                      newExtractedData = [],
                                      newPageImages =
                                        (case pageImages processedFile of None \<Rightarrow> [] | Some xs \<Rightarrow> xs),
                                      newPageImageDimensions =
                                        (case pageImageDimensions processedFile of
                                           None \<Rightarrow> [] | Some xs \<Rightarrow> xs),
                                      runFiles = files1\<rparr> pagesToProcess of
                                (Some t, acc) \<Rightarrow> catchRun processedFile (runFiles acc) tr2 t
                              | (None, acc) \<Rightarrow>
                                  (case (if engine = Tesseract then workerTerminate env else None) of
                                     Some t \<Rightarrow> catchRun processedFile (runFiles acc) tr2 t
                                   | None \<Rightarrow>
                                       \<lparr>resultFiles = updateFile pid (completeRun env engine acc)
                                                        (runFiles acc),
                                        thrown = None,
                                        trace = (if engine = Tesseract then tr2 @ [WorkerTerminated]
                                                 else tr2) @ [DocumentCompleted]\<rparr>)))))"

definition okPage :: "string \<Rightarrow> PageEnv" where
  "okPage t = \<lparr>rendering = Inr (Some (''data:image/png;base64,AAAA'', \<lparr>dimWidth = 1190, dimHeight = 1684\<rparr>)),
     tableResult = Inr [], googleText = Inr t, ocrSpaceText = Inr t, tesseractLines = Inr [t]\<rparr>"

definition goodEnv :: RunEnv where
  "goodEnv = \<lparr>documentLoad = None, workerCreate = None, workerSetParameters = None,
     pageEnv = (\<lambda>n. okPage ''Total 12''), workerTerminate = None, now = ''1700000000000''\<rparr>"

definition failingEnv :: RunEnv where
  \<comment> \<open>the recognition of page 2 is rejected\<close>
  "failingEnv = goodEnv\<lparr>pageEnv := (\<lambda>n. if n = 2
      then (okPage [])\<lparr>tesseractLines := Inl (ErrorObject ''recognize failed'')\<rparr>
      else okPage ''Total 12'')\<rparr>"

definition otherFile :: ProcessedFile where
  "otherFile = demoFile\<lparr>fileId := ''g''\<rparr>"

definition pendingFile :: ProcessedFile where
  "pendingFile = \<lparr>fileId = ''f'', fileName = ''a.pdf'', status = AwaitingSelection, progress = 0,
     ocrEngine = None, languages = None, error = None, extractedData = None, pageImages = None,
     analysis = None, manuallyEditedPages = None, totalPages = Some 3,
     pagePreviews = Some [(1, ''p1''), (2, ''p2''), (3, ''p3'')], selectedPages = [2, 1],
     fileStructuredDataPreview = None, selectionRectangles = None,
     pageImageDimensions = Some [Some \<lparr>dimWidth = 1190, dimHeight = 1684\<rparr>,
        Some \<lparr>dimWidth = 1190, dimHeight = 1684\<rparr>, Some \<lparr>dimWidth = 1190, dimHeight = 1684\<rparr>],
     extractionTasks = []\<rparr>"

section \<open>Properties\<close>

subsection \<open>Rows of the structuring engine\<close>








subsection \<open>Correction lists of different lengths\<close>

text \<open>
  Claim C2. When the find list and the replace list of a task are both non-empty and of
  different lengths, \<^const>\<open>processTask\<close> returns what it returns for the same task
  with both lists empty: the corrections are switched off and nothing fails.
\<close>

theorem processTask_mismatch:
  assumes "length (parseValues (findValues task)) > 0"
      and "length (parseValues (replaceValues task)) > 0"
      and "length (parseValues (findValues task)) \<noteq> length (parseValues (replaceValues task))"
  shows "processTask file task = processTask file (task\<lparr>findValues := [], replaceValues := []\<rparr>)"
proof -
  have "structurePage file task (parseValues (findValues task)) (parseValues (replaceValues task)) elims
          = structurePage file (task\<lparr>findValues := [], replaceValues := []\<rparr>) [] [] elims" for elims
    unfolding structurePage_def Let_def using assms(3) by (simp cong: if_cong)
  moreover have "parseValues [] = []"
    by (simp add: parseValues_def)
  ultimately show ?thesis
    unfolding processTask_def by (simp split: option.split)
qed

theorem processTask_mismatch_witness:
  "0 < length (parseValues (findValues demoTask))
   \<and> 0 < length (parseValues (replaceValues demoTask))
   \<and> length (parseValues (findValues demoTask)) \<noteq> length (parseValues (replaceValues demoTask))
   \<and> processTask demoFile demoTask
       = processTask demoFile (demoTask\<lparr>findValues := [], replaceValues := []\<rparr>)
   \<and> processTask demoFile demoTask
       = [[(''Name'', ''John''), (''Age'', ''25'')], [(''Name'', ''Jane''), (''Age'', ''30'')],
          [(''Name'', ''x''), (''Age'', ''1O2'')]]"
proof -
  have a: "0 < length (parseValues (findValues demoTask))"
    by code_simp
  have b: "0 < length (parseValues (replaceValues demoTask))"
    by code_simp
  have c: "length (parseValues (findValues demoTask)) \<noteq> length (parseValues (replaceValues demoTask))"
    by code_simp
  have e: "processTask demoFile (demoTask\<lparr>findValues := [], replaceValues := []\<rparr>)
       = [[(''Name'', ''John''), (''Age'', ''25'')], [(''Name'', ''Jane''), (''Age'', ''30'')],
          [(''Name'', ''x''), (''Age'', ''1O2'')]]"
    by code_simp
  show ?thesis
    using processTask_mismatch [OF a b c, of demoFile] a b c e by simp
qed

subsection \<open>Eliminators\<close>

lemma jsIncludes_sublist: "jsIncludes s e \<longleftrightarrow> sublist e s"
  by (induction s) (simp_all add: sublist_Cons_right)

lemma jsIncludes_iff: "jsIncludes s e \<longleftrightarrow> (\<exists>p q. s = p @ e @ q)"
  by (simp add: jsIncludes_sublist sublist_def)

lemma splitFrom_nosep:
  "c \<notin> set cur \<Longrightarrow> \<forall>l \<in> set (splitFrom [c] cur s). c \<notin> set l"
proof (induction s arbitrary: cur)
  case Nil
  then show ?case by simp
next
  case (Cons x xs)
  show ?case
  proof (cases "x = c")
    case True
    then show ?thesis
      using Cons.IH [of "[]"] Cons.prems by simp
  next
    case False
    then show ?thesis
      using Cons.IH [of "cur @ [x]"] Cons.prems by simp
  qed
qed

lemma splitFrom_append_nosep:
  "c \<notin> set l \<Longrightarrow> splitFrom [c] cur (l @ s) = splitFrom [c] (cur @ l) s"
  by (induction l arbitrary: cur) auto

lemma splitFrom_join:
  "\<forall>l \<in> set (l0 # ls). c \<notin> set l \<Longrightarrow>
   splitFrom [c] cur (jsJoin [c] (l0 # ls)) = (cur @ l0) # ls"
proof (induction ls arbitrary: l0 cur)
  case Nil
  then show ?case
    using splitFrom_append_nosep [of c l0 cur "[]"] by simp
next
  case (Cons l1 ls)
  have "splitFrom [c] cur (jsJoin [c] (l0 # l1 # ls))
          = splitFrom [c] (cur @ l0) (c # jsJoin [c] (l1 # ls))"
    using Cons.prems splitFrom_append_nosep [of c l0 cur "c # jsJoin [c] (l1 # ls)"] by simp
  also have "\<dots> = (cur @ l0) # splitFrom [c] [] (jsJoin [c] (l1 # ls))"
    by simp
  also have "\<dots> = (cur @ l0) # l1 # ls"
    using Cons.IH [of l1 "[]"] Cons.prems by simp
  finally show ?case .
qed

lemma jsSplit_jsJoin_lines:
  "ls \<noteq> [] \<Longrightarrow> \<forall>l \<in> set ls. c \<notin> set l \<Longrightarrow> jsSplit (jsJoin [c] ls) [c] = ls"
  using splitFrom_join [of "hd ls" "tl ls" c "[]"] by (cases ls) (simp_all add: jsSplit_def)

lemma jsSplit_lines_nosep: "l \<in> set (jsSplit s [c]) \<Longrightarrow> c \<notin> set l"
  using splitFrom_nosep [of c "[]" s] by (simp add: jsSplit_def)

lemma eliminateLines_filter:
  "elims \<noteq> [] \<Longrightarrow>
   eliminateLines elims pageText
     = jsJoin [NL] (filter (\<lambda>line. \<not> containsKeyword elims line) (jsSplit pageText [NL]))"
  by (simp add: eliminateLines_def containsKeyword_def list_ex_iff jsIncludes_iff)

lemma containsKeyword_code:
  "containsKeyword elims line = list_ex (\<lambda>e. jsIncludes (toLowerCase line) e) elims"
  by (simp add: containsKeyword_def list_ex_iff jsIncludes_iff)

text \<open>
  Claim C8. With a non-empty eliminator list, the page text after the eliminator step is
  the lines of the text that contain no keyword, joined again: a line is dropped exactly
  when its lower-case form contains one of the lower-cased keywords as a substring.
  Splitting the result gives back exactly the lines kept (one empty line when none is).
  Any line containing \<^verbatim>\<open>PAGE NO.\<close> is dropped for the keyword \<^verbatim>\<open>page no.\<close>.
\<close>

theorem eliminators_drop_lines:
  assumes "parseEliminators eliminatorsString \<noteq> []"
  shows "eliminateLines (parseEliminators eliminatorsString) pageText
           = jsJoin [NL] (filter (\<lambda>line. \<not> containsKeyword (parseEliminators eliminatorsString) line)
                            (jsSplit pageText [NL]))
         \<and> (jsSplit (eliminateLines (parseEliminators eliminatorsString) pageText) [NL]
              = (if \<forall>line \<in> set (jsSplit pageText [NL]).
                       containsKeyword (parseEliminators eliminatorsString) line
                 then [[]]
                 else filter (\<lambda>line. \<not> containsKeyword (parseEliminators eliminatorsString) line)
                        (jsSplit pageText [NL])))
         \<and> (\<forall>p q. containsKeyword (parseEliminators ''page no.'') (p @ ''PAGE NO.'' @ q))"
proof -
  let ?elims = "parseEliminators eliminatorsString"
  let ?kept = "filter (\<lambda>line. \<not> containsKeyword ?elims line) (jsSplit pageText [NL])"
  have out: "eliminateLines ?elims pageText = jsJoin [NL] ?kept"
    using assms by (rule eliminateLines_filter)
  have nosep: "\<forall>l \<in> set (?kept). NL \<notin> set l"
    by (auto dest: jsSplit_lines_nosep)
  have again: "jsSplit (jsJoin [NL] ?kept) [NL] = (if ?kept = [] then [[]] else ?kept)"
    using jsSplit_jsJoin_lines [OF _ nosep] by (simp add: jsSplit_def)
  have empty: "?kept = [] \<longleftrightarrow> (\<forall>line \<in> set (jsSplit pageText [NL]). containsKeyword ?elims line)"
    by (simp add: filter_empty_conv)
  have kw: "parseEliminators ''page no.'' = [''page no.'']"
    by code_simp
  have low: "toLowerCase ''PAGE NO.'' = ''page no.''"
    by code_simp
  have inst: "containsKeyword (parseEliminators ''page no.'') (p @ ''PAGE NO.'' @ q)" for p q
    unfolding containsKeyword_def kw
    using low by (auto simp: toLowerCase_def)
  show ?thesis
    using out again empty inst by simp
qed

theorem eliminators_drop_lines_witness:
  "parseEliminators '' Page No. ,'' \<noteq> []
   \<and> eliminateLines (parseEliminators '' Page No. ,'')
         (''John'' @ [TAB] @ ''25'' @ [NL] @ ''PAGE NO. 3'' @ [NL] @ ''Jane'' @ [TAB] @ ''30'')
       = ''John'' @ [TAB] @ ''25'' @ [NL] @ ''Jane'' @ [TAB] @ ''30''
   \<and> processTask scenarioFile scenarioTask
       = [[(''Name'', ''John''), (''Age'', ''25'')], [(''Name'', ''Jane''), (''Age'', ''30'')]]"
proof -
  have h: "parseEliminators '' Page No. ,'' \<noteq> []"
    by code_simp
  have "eliminateLines (parseEliminators '' Page No. ,'')
         (''John'' @ [TAB] @ ''25'' @ [NL] @ ''PAGE NO. 3'' @ [NL] @ ''Jane'' @ [TAB] @ ''30'')
        = jsJoin [NL] (filter (\<lambda>line. \<not> containsKeyword (parseEliminators '' Page No. ,'') line)
            (jsSplit (''John'' @ [TAB] @ ''25'' @ [NL] @ ''PAGE NO. 3'' @ [NL] @ ''Jane'' @ [TAB] @ ''30'') [NL]))"
    using eliminators_drop_lines [OF h] by blast
  also have "\<dots> = ''John'' @ [TAB] @ ''25'' @ [NL] @ ''Jane'' @ [TAB] @ ''30''"
    unfolding containsKeyword_code by code_simp
  finally have e: "eliminateLines (parseEliminators '' Page No. ,'')
         (''John'' @ [TAB] @ ''25'' @ [NL] @ ''PAGE NO. 3'' @ [NL] @ ''Jane'' @ [TAB] @ ''30'')
       = ''John'' @ [TAB] @ ''25'' @ [NL] @ ''Jane'' @ [TAB] @ ''30''" .
  have p: "processTask scenarioFile scenarioTask
       = [[(''Name'', ''John''), (''Age'', ''25'')], [(''Name'', ''Jane''), (''Age'', ''30'')]]"
    by code_simp
  show ?thesis
    using h e p by blast
qed

subsection \<open>Tables of the table-structuring backend\<close>











text \<open>
  A table of a header row and one data row gives no rows either: the test for a table
  of headers only is made after \<^verbatim>\<open>shift()\<close> has taken the header row away.
\<close>

lemma textract_two_row_table:
  "rowsAsArrays twoRowTable (hd (filter isTable twoRowTable))
     = [[''Name'', ''Age''], [''Alice'', ''30'']]
   \<and> textractTableFlow (Some twoRowTable) = []"
  by code_simp

subsection \<open>Sheets of the export\<close>







subsection \<open>Scaling of a drawn rectangle\<close>

lemma jsRound_nearest: "\<bar>jsRound x - x\<bar> \<le> 1 / 2"
  unfolding jsRound_def by linarith

lemma scale_back_error:
  fixes v d o' :: rat
  assumes "0 < d" "d \<le> o'"
  shows "\<bar>(jsRound ((v / d) * o') / o') * d - v\<bar> \<le> 1 / 2"
proof -
  have o: "0 < o'" using assms by simp
  define e where "e = jsRound ((v / d) * o') - (v / d) * o'"
  have e: "\<bar>e\<bar> \<le> 1 / 2"
    unfolding e_def by (rule jsRound_nearest)
  have "(jsRound ((v / d) * o') / o') * d - v = e * (d / o')"
    unfolding e_def using assms o by (simp add: field_simps)
  moreover have "\<bar>e * (d / o')\<bar> \<le> 1 / 2"
  proof -
    have r: "0 \<le> d / o'" "d / o' \<le> 1"
      using assms o by simp_all
    have "\<bar>e * (d / o')\<bar> = \<bar>e\<bar> * (d / o')"
      using assms o by (simp add: abs_mult)
    also have "\<dots> \<le> (1 / 2) * 1"
      using e r by (intro mult_mono) simp_all
    finally show ?thesis by simp
  qed
  ultimately show ?thesis by simp
qed

lemma scale_round_trip:
  fixes v d o' :: rat
  assumes "0 < d" "d \<le> o'"
  shows "\<bar>jsRound ((jsRound ((v / d) * o') / o') * d) - v\<bar> \<le> 1"
  using scale_back_error [OF assms, of v] jsRound_nearest [of "(jsRound ((v / d) * o') / o') * d"]
  by linarith

lemma floor_samples:
  "\<lfloor>451 / 2 :: rat\<rfloor> = 225" "\<lfloor>31 / 2 :: rat\<rfloor> = 15" "\<lfloor>301 / 2 :: rat\<rfloor> = 150"
  "\<lfloor>181 / 2 :: rat\<rfloor> = 90" "\<lfloor>21 / 2 :: rat\<rfloor> = 10" "\<lfloor>121 / 2 :: rat\<rfloor> = 60"
  "\<lfloor>311 / 6 :: rat\<rfloor> = 51" "\<lfloor>17 / 2 :: rat\<rfloor> = 8"
  by linarith+



text \<open>
  Claim C7, as the code has it. Mapping a rectangle to the full-resolution space and
  mapping the result back with the same rounding rule gives each of left, top, width
  and height back within 1, provided that on each axis the display extent is positive
  and not larger than the full-resolution extent. The overlay of the stored rectangles,
  which maps back without rounding, is then within 1/2.
\<close>

theorem scaledRect_round_trip:
  assumes "0 < dw" and "dw \<le> ow" and "0 < dh" and "dh \<le> oh"
  shows "\<bar>left (scaledRect (scaledRect R dw dh ow oh) ow oh dw dh) - left R\<bar> \<le> 1
       \<and> \<bar>top (scaledRect (scaledRect R dw dh ow oh) ow oh dw dh) - top R\<bar> \<le> 1
       \<and> \<bar>width (scaledRect (scaledRect R dw dh ow oh) ow oh dw dh) - width R\<bar> \<le> 1
       \<and> \<bar>height (scaledRect (scaledRect R dw dh ow oh) ow oh dw dh) - height R\<bar> \<le> 1
       \<and> \<bar>left (displayRect (scaledRect R dw dh ow oh) ow oh dw dh) - left R\<bar> \<le> 1 / 2
       \<and> \<bar>top (displayRect (scaledRect R dw dh ow oh) ow oh dw dh) - top R\<bar> \<le> 1 / 2
       \<and> \<bar>width (displayRect (scaledRect R dw dh ow oh) ow oh dw dh) - width R\<bar> \<le> 1 / 2
       \<and> \<bar>height (displayRect (scaledRect R dw dh ow oh) ow oh dw dh) - height R\<bar> \<le> 1 / 2"
  using scale_round_trip [OF assms(1,2)] scale_round_trip [OF assms(3,4)]
    scale_back_error [OF assms(1,2)] scale_back_error [OF assms(3,4)]
  by (simp add: scaledRect_def displayRect_def)

theorem scaledRect_round_trip_witness:
  "(0 :: rat) < 100 \<and> (100 :: rat) \<le> 250 \<and> (0 :: rat) < 200 \<and> (200 :: rat) \<le> 300
   \<and> scaledRect (scaledRect \<lparr>left = 90, top = 10, width = 60, height = 51\<rparr> 100 200 250 300)
         250 300 100 200
       = \<lparr>left = 90, top = 10, width = 60, height = 51\<rparr>
   \<and> \<bar>height (scaledRect (scaledRect \<lparr>left = 90, top = 10, width = 60, height = 51\<rparr> 100 200 250 300)
         250 300 100 200) - 51\<bar> \<le> 1"
proof -
  have h: "(0 :: rat) < 100" "(100 :: rat) \<le> 250" "(0 :: rat) < 200" "(200 :: rat) \<le> 300"
    by simp_all
  have "\<bar>height (scaledRect (scaledRect \<lparr>left = 90, top = 10, width = 60, height = 51\<rparr> 100 200 250 300)
         250 300 100 200) - height \<lparr>left = 90, top = 10, width = 60, height = 51 :: rat\<rparr>\<bar> \<le> 1"
    using scaledRect_round_trip [OF h, of "\<lparr>left = 90, top = 10, width = 60, height = 51\<rparr>"]
    by blast
  moreover have "scaledRect (scaledRect \<lparr>left = 90, top = 10, width = 60, height = 51\<rparr> 100 200 250 300)
         250 300 100 200
       = \<lparr>left = 90, top = 10, width = 60, height = 51\<rparr>"
    by (simp add: scaledRect_def jsRound_def floor_samples)
  ultimately show ?thesis
    using h by simp
qed

theorem scaledRect_round_trip_counterexample:
  "scaledRect smallRect 600 600 150 150 = \<lparr>left = 2, top = 2, width = 2, height = 2\<rparr>
   \<and> scaledRect (scaledRect smallRect 600 600 150 150) 150 150 600 600
       = \<lparr>left = 8, top = 8, width = 8, height = 8\<rparr>
   \<and> displayRect (scaledRect smallRect 600 600 150 150) 150 150 600 600
       = \<lparr>left = 8, top = 8, width = 8, height = 8\<rparr>
   \<and> \<not> \<bar>left (scaledRect (scaledRect smallRect 600 600 150 150) 150 150 600 600)
          - left smallRect\<bar> \<le> 1"
  by (simp add: smallRect_def scaledRect_def displayRect_def jsRound_def floor_samples)

subsection \<open>The selected languages\<close>

lemma handleLanguageChange_nonempty:
  "languagesState st \<noteq> [] \<Longrightarrow> languagesState (handleLanguageChange lang checked st) \<noteq> []"
  by (simp add: handleLanguageChange_def Let_def)

lemma applyEvent_nonempty:
  "languagesState st \<noteq> [] \<Longrightarrow> languagesState (applyEvent st ev) \<noteq> []"
  by (cases ev) (simp_all add: handleLanguageChange_nonempty)

lemma events_nonempty:
  "languagesState st \<noteq> [] \<Longrightarrow> languagesState (foldl applyEvent st evs) \<noteq> []"
  by (induction evs arbitrary: st) (simp_all add: applyEvent_nonempty)

text \<open>
  Claim C10. Whatever language checkboxes are toggled and whatever is typed into the
  whitelist field, the selected-language list is never empty. A language change whose
  result would be empty leaves the languages and the whitelist as they are. Every other
  language change stores the new languages and sets the whitelist to the English
  characters (if \<^verbatim>\<open>eng\<close> is selected), then the Hindi characters (if \<^verbatim>\<open>hin\<close> is
  selected), then the symbols.
\<close>

theorem language_set_never_empty:
  "languagesState (foldl applyEvent initialSettings evs) \<noteq> []
   \<and> (newLangs lang checked (languagesState st) = [] \<longrightarrow>
        handleLanguageChange lang checked st = st)
   \<and> (newLangs lang checked (languagesState st) \<noteq> [] \<longrightarrow>
        languagesState (handleLanguageChange lang checked st)
          = newLangs lang checked (languagesState st)
        \<and> charWhitelist (handleLanguageChange lang checked st)
          = (if ''eng'' \<in> set (newLangs lang checked (languagesState st)) then ENG_CHARS else [])
            @ (if ''hin'' \<in> set (newLangs lang checked (languagesState st)) then HINDI_CHARS else [])
            @ SYMBOLS)"
proof -
  have "languagesState (foldl applyEvent initialSettings evs) \<noteq> []"
    by (rule events_nonempty) (simp add: initialSettings_def)
  then show ?thesis
    by (simp add: handleLanguageChange_def deriveWhitelist_def Let_def)
qed

theorem language_set_never_empty_witness:
  "newLangs ''eng'' False (languagesState initialSettings) = []
   \<and> handleLanguageChange ''eng'' False initialSettings = initialSettings
   \<and> newLangs ''hinglish'' True (languagesState initialSettings) = [''eng'', ''hin'']
   \<and> handleLanguageChange ''hinglish'' True initialSettings
       = \<lparr>languagesState = [''eng'', ''hin''], charWhitelist = ENG_CHARS @ HINDI_CHARS @ SYMBOLS\<rparr>
   \<and> languagesState (foldl applyEvent initialSettings
         [LanguageChange ''hin'' True, LanguageChange ''eng'' False, WhitelistEdit [],
          LanguageChange ''hinglish'' False]) = [''hin'']"
proof -
  have a: "newLangs ''eng'' False (languagesState initialSettings) = []"
    by (simp add: newLangs_def newSet_def setAdd_def setDelete_def initialSettings_def)
  have b: "newLangs ''hinglish'' True (languagesState initialSettings) = [''eng'', ''hin'']"
    by (simp add: newLangs_def newSet_def setAdd_def setDelete_def initialSettings_def)
  have c: "handleLanguageChange ''eng'' False initialSettings = initialSettings"
    using language_set_never_empty [of "[]" "''eng''" False initialSettings] a by blast
  have "languagesState (handleLanguageChange ''hinglish'' True initialSettings) = [''eng'', ''hin'']
    \<and> charWhitelist (handleLanguageChange ''hinglish'' True initialSettings)
        = ENG_CHARS @ HINDI_CHARS @ SYMBOLS"
    using language_set_never_empty [of "[]" "''hinglish''" True initialSettings] b by simp
  then have d: "handleLanguageChange ''hinglish'' True initialSettings
       = \<lparr>languagesState = [''eng'', ''hin''], charWhitelist = ENG_CHARS @ HINDI_CHARS @ SYMBOLS\<rparr>"
    by (cases "handleLanguageChange ''hinglish'' True initialSettings") simp
  have e: "languagesState (foldl applyEvent initialSettings
         [LanguageChange ''hin'' True, LanguageChange ''eng'' False, WhitelistEdit [],
          LanguageChange ''hinglish'' False]) = [''hin'']"
    by (simp add: handleLanguageChange_def newLangs_def newSet_def setAdd_def setDelete_def
          initialSettings_def Let_def)
  show ?thesis
    using a b c d e by blast
qed

subsection \<open>A run that fails\<close>

lemma updateFile_absorb:
  "(\<And>f. fileId (u f) = fileId f) \<Longrightarrow>
   updateFile pid (\<lambda>f. c) (updateFile pid u fs) = updateFile pid (\<lambda>f. c) fs"
  by (simp add: updateFile_def)

lemma processPage_files:
  "processPage env engine pid n acc p = Inr acc' \<Longrightarrow>
   updateFile pid (\<lambda>f. c) (runFiles acc') = updateFile pid (\<lambda>f. c) (runFiles acc)"
  unfolding processPage_def Let_def
  by (cases engine)
     (auto split: sum.splits option.splits prod.splits
           simp: pageDone_def Let_def storePage_def updateFile_absorb)

lemma runPages_files:
  "runPages env engine pid n acc ps = (r, acc') \<Longrightarrow>
   updateFile pid (\<lambda>f. c) (runFiles acc') = updateFile pid (\<lambda>f. c) (runFiles acc)"
proof (induction ps arbitrary: acc)
  case Nil
  then show ?case by simp
next
  case (Cons p ps)
  show ?case
  proof (cases "processPage env engine pid n acc p")
    case (Inl t)
    then show ?thesis using Cons.prems by simp
  next
    case (Inr acc1)
    then have "runPages env engine pid n acc1 ps = (r, acc')"
      using Cons.prems by simp
    then show ?thesis
      using Cons.IH [of acc1] processPage_files [OF Inr, of c] by simp
  qed
qed

lemma startRun_files:
  "updateFile pid (\<lambda>f. c) (updateFile pid (startRun pf ls e) fs) = updateFile pid (\<lambda>f. c) fs"
  by (rule updateFile_absorb) (simp add: startRun_def Let_def)

lemma processFile_failed_files:
  assumes "thrown (processFile env pf ls engine files) = Some t"
  shows "resultFiles (processFile env pf ls engine files)
           = updateFile (fileId pf) (\<lambda>f. failRun pf t) files"
proof -
  let ?files1 = "updateFile (fileId pf) (startRun pf ls engine) files"
  let ?acc0 = "\<lparr>processedCount = 0, allStructuredData = [], newExtractedData = [],
      newPageImages = (case pageImages pf of None \<Rightarrow> [] | Some xs \<Rightarrow> xs),
      newPageImageDimensions = (case pageImageDimensions pf of None \<Rightarrow> [] | Some xs \<Rightarrow> xs),
      runFiles = ?files1\<rparr>"
  obtain r acc where run: "runPages env engine (fileId pf) (length (sort (selectedPages pf)))
      ?acc0 (sort (selectedPages pf)) = (r, acc)"
    by (cases "runPages env engine (fileId pf) (length (sort (selectedPages pf)))
      ?acc0 (sort (selectedPages pf))") blast
  have loop: "updateFile (fileId pf) (\<lambda>f. c) (runFiles acc) = updateFile (fileId pf) (\<lambda>f. c) files" for c
    using runPages_files [OF run, of c] startRun_files [of "fileId pf" c pf ls engine files] by simp
  show ?thesis
    using assms run loop startRun_files [of "fileId pf" _ pf ls engine files]
    unfolding processFile_def Let_def catchRun_def
    by (auto split: option.splits if_splits)
qed

lemma processFile_failed_trace:
  assumes "thrown (processFile env pf ls engine files) \<noteq> None"
  shows "WorkerTerminated \<notin> set (trace (processFile env pf ls engine files))"
  using assms unfolding processFile_def Let_def catchRun_def
  by (auto split: option.splits if_splits prod.splits)

text \<open>
  Claim C4 asks that the Tesseract worker is terminated at the end of every run, also
  of a run that fails, before the document goes to \<^verbatim>\<open>error\<close>. The code terminates the
  worker after the loop over the pages only; its \<^verbatim>\<open>catch\<close> block does not. In the run
  below the recognition of the second page is rejected: the worker has been created, the
  document goes to \<^verbatim>\<open>error\<close>, and the worker is never terminated. The same run
  without the rejection terminates the worker before the document is completed.
\<close>

theorem processFile_failure_keeps_worker:
  "thrown (processFile failingEnv pendingFile [''eng''] Tesseract [pendingFile, otherFile])
     = Some (ErrorObject ''recognize failed'')
   \<and> trace (processFile failingEnv pendingFile [''eng''] Tesseract [pendingFile, otherFile])
     = [DocumentProcessing, WorkerCreated ''eng'', DocumentError]
   \<and> WorkerTerminated
       \<notin> set (trace (processFile failingEnv pendingFile [''eng''] Tesseract [pendingFile, otherFile]))
   \<and> trace (processFile goodEnv pendingFile [''eng''] Tesseract [pendingFile, otherFile])
     = [DocumentProcessing, WorkerCreated ''eng'', WorkerTerminated, DocumentCompleted]"
proof -
  have t: "thrown (processFile failingEnv pendingFile [''eng''] Tesseract [pendingFile, otherFile])
     = Some (ErrorObject ''recognize failed'')"
    by code_simp
  have f: "trace (processFile failingEnv pendingFile [''eng''] Tesseract [pendingFile, otherFile])
     = [DocumentProcessing, WorkerCreated ''eng'', DocumentError]"
    by code_simp
  have g: "trace (processFile goodEnv pendingFile [''eng''] Tesseract [pendingFile, otherFile])
     = [DocumentProcessing, WorkerCreated ''eng'', WorkerTerminated, DocumentCompleted]"
    by code_simp
  show ?thesis
    using t g processFile_failed_trace [of failingEnv pendingFile "[''eng'']" Tesseract
        "[pendingFile, otherFile]"]
    unfolding f by simp
qed

text \<open>
  Claim C9. When a run throws, at whatever point, the entry of the document in the file
  list becomes the snapshot the run was started with, with status \<^verbatim>\<open>error\<close>, progress
  0 and the message of the error; every other entry is as it was before the run. So the
  extracted page texts, the extraction tasks, the page images and the manually edited
  pages of the entry are those of the snapshot, and nothing recognised during the
  failed run is kept.
\<close>

theorem processFile_failure_restores_snapshot:
  assumes "thrown (processFile env processedFile selectedLangs engine files) = Some t"
  shows "resultFiles (processFile env processedFile selectedLangs engine files)
           = map (\<lambda>f. if fileId f = fileId processedFile
                       then processedFile\<lparr>status := Error, progress := 0,
                                           error := Some (errorMessageOf t)\<rparr>
                       else f) files
         \<and> (\<forall>f \<in> set (resultFiles (processFile env processedFile selectedLangs engine files)).
               fileId f = fileId processedFile \<longrightarrow>
                 f = processedFile\<lparr>status := Error, progress := 0,
                                     error := Some (errorMessageOf t)\<rparr>
                 \<and> extractedData f = extractedData processedFile
                 \<and> extractionTasks f = extractionTasks processedFile
                 \<and> pageImages f = pageImages processedFile
                 \<and> manuallyEditedPages f = manuallyEditedPages processedFile)"
proof -
  have files: "resultFiles (processFile env processedFile selectedLangs engine files)
           = map (\<lambda>f. if fileId f = fileId processedFile
                       then processedFile\<lparr>status := Error, progress := 0,
                                           error := Some (errorMessageOf t)\<rparr>
                       else f) files"
    using processFile_failed_files [OF assms] by (simp add: updateFile_def failRun_def)
  show ?thesis
    unfolding files by auto
qed

theorem processFile_failure_restores_snapshot_witness:
  "thrown (processFile failingEnv pendingFile [''eng''] Tesseract
             [pendingFile\<lparr>extractionTasks := [blankTask]\<rparr>, otherFile])
     = Some (ErrorObject ''recognize failed'')
   \<and> resultFiles (processFile failingEnv pendingFile [''eng''] Tesseract
                    [pendingFile\<lparr>extractionTasks := [blankTask]\<rparr>, otherFile])
     = [pendingFile\<lparr>status := Error, progress := 0, error := Some ''recognize failed''\<rparr>,
        otherFile]"
proof -
  have t: "thrown (processFile failingEnv pendingFile [''eng''] Tesseract
             [pendingFile\<lparr>extractionTasks := [blankTask]\<rparr>, otherFile])
     = Some (ErrorObject ''recognize failed'')"
    by code_simp
  have i: "fileId pendingFile = ''f''" "fileId otherFile = ''g''"
    by (simp_all add: pendingFile_def otherFile_def demoFile_def)
  have "resultFiles (processFile failingEnv pendingFile [''eng''] Tesseract
                    [pendingFile\<lparr>extractionTasks := [blankTask]\<rparr>, otherFile])
     = map (\<lambda>f. if fileId f = fileId pendingFile
                       then pendingFile\<lparr>status := Error, progress := 0,
                                           error := Some (errorMessageOf (ErrorObject ''recognize failed''))\<rparr>
                       else f) [pendingFile\<lparr>extractionTasks := [blankTask]\<rparr>, otherFile]"
    by (rule processFile_failure_restores_snapshot [OF t, THEN conjunct1])
  also have "\<dots> = [pendingFile\<lparr>status := Error, progress := 0, error := Some ''recognize failed''\<rparr>,
        otherFile]"
    by (simp add: i errorMessageOf_def)
  finally show ?thesis
    using t by (rule conjI [rotated])
qed

end
